theory Spec2Isabelle
  imports Complex_Main
begin

section \<open>JavaScript numbers\<close>

text \<open>
  The script \<^verbatim>\<open>graph.js\<close> computes with JavaScript Numbers: IEEE 754 binary64 values.
  A Number is NaN, one of the two infinities, or a finite value; a finite value is carried
  here by the real number it denotes. The two zeros are not told apart: the script only
  compares, multiplies, subtracts and truncates Numbers, and none of these separates
  \<open>+0\<close> from \<open>-0\<close>.
\<close>

datatype number = NaN | PosInf | NegInf | Fin real

fun js_neg :: "number \<Rightarrow> number" where
  "js_neg NaN = NaN"
| "js_neg PosInf = NegInf"
| "js_neg NegInf = PosInf"
| "js_neg (Fin a) = Fin (- a)"

text \<open>
  Rounding of a real to the nearest binary64 value, ties to even. \<open>bitlen n\<close> is the
  number of binary digits of \<open>n\<close>; \<open>binexp x\<close> is the exponent \<open>e\<close> with
  \<open>2^e \<le> x < 2^(e+1)\<close> of a positive \<open>x\<close>. Below the smallest normal exponent
  \<open>-1022\<close> the spacing of the subnormal values is used; a result of \<open>2^1024\<close> or more
  overflows to infinity.
\<close>

fun bitlen :: "nat \<Rightarrow> int" where
  "bitlen n = (if n = 0 then 0 else 1 + bitlen (n div 2))"

declare bitlen.simps [simp del]

definition binexp :: "real \<Rightarrow> int" where
  "binexp x = (if 1 \<le> x then bitlen (nat \<lfloor>x\<rfloor>) - 1 else - bitlen (nat \<lceil>1 / x\<rceil> - 1))"

definition round_half_even :: "real \<Rightarrow> int" where
  "round_half_even q =
     (let f = \<lfloor>q\<rfloor>; d = q - of_int f
      in if d < 1 / 2 then f else if 1 / 2 < d then f + 1 else if even f then f else f + 1)"

definition scale2 :: "real \<Rightarrow> int \<Rightarrow> real" where
  "scale2 x k = (if 0 \<le> k then x * 2 ^ nat k else x / 2 ^ nat (- k))"

definition round64_pos :: "real \<Rightarrow> number" where
  "round64_pos x =
     (let e = max (binexp x) (- 1022);
          r = scale2 (of_int (round_half_even (scale2 x (52 - e)))) (e - 52)
      in if 2 ^ 1024 \<le> r then PosInf else Fin r)"

definition round64 :: "real \<Rightarrow> number" where
  "round64 x = (if x = 0 then Fin 0 else if 0 < x then round64_pos x else js_neg (round64_pos (- x)))"

text \<open>The operators \<^verbatim>\<open>*\<close> and \<^verbatim>\<open>-\<close> on Numbers: the exact result, rounded.\<close>

fun js_mul :: "number \<Rightarrow> number \<Rightarrow> number" where
  "js_mul NaN _ = NaN"
| "js_mul _ NaN = NaN"
| "js_mul (Fin a) (Fin b) = round64 (a * b)"
| "js_mul (Fin a) v = (if a = 0 then NaN else if 0 < a then v else js_neg v)"
| "js_mul v (Fin b) = (if b = 0 then NaN else if 0 < b then v else js_neg v)"
| "js_mul PosInf v = v"
| "js_mul NegInf v = js_neg v"

fun js_sub :: "number \<Rightarrow> number \<Rightarrow> number" where
  "js_sub NaN _ = NaN"
| "js_sub _ NaN = NaN"
| "js_sub (Fin a) (Fin b) = round64 (a - b)"
| "js_sub (Fin a) v = js_neg v"
| "js_sub v (Fin b) = v"
| "js_sub PosInf PosInf = NaN"
| "js_sub NegInf NegInf = NaN"
| "js_sub PosInf NegInf = PosInf"
| "js_sub NegInf PosInf = NegInf"

text \<open>The comparisons \<^verbatim>\<open><=\<close> and \<^verbatim>\<open>>=\<close>: false as soon as one side is NaN.\<close>

fun js_le :: "number \<Rightarrow> number \<Rightarrow> bool" where
  "js_le NaN _ = False"
| "js_le _ NaN = False"
| "js_le NegInf _ = True"
| "js_le _ PosInf = True"
| "js_le (Fin a) (Fin b) = (a \<le> b)"
| "js_le _ _ = False"

definition js_ge :: "number \<Rightarrow> number \<Rightarrow> bool" where
  "js_ge a b = js_le b a"

text \<open>\<^verbatim>\<open>Number.isNaN\<close>.\<close>

fun isNaN :: "number \<Rightarrow> bool" where
  "isNaN NaN = True"
| "isNaN _ = False"

section \<open>parseFloat\<close>

text \<open>
  The built-in \<^verbatim>\<open>parseFloat\<close> (ECMAScript, section "parseFloat ( string )"): leading white
  space is dropped, the longest prefix that is a \<^verbatim>\<open>StrDecimalLiteral\<close> is taken, and its
  mathematical value is rounded to a Number; without such a prefix the result is NaN.
  Whatever follows the prefix is ignored. Strings are lists of 8-bit characters here, so
  the white space of the Latin-1 range is what \<open>is_white\<close> knows.
\<close>

definition is_white :: "char \<Rightarrow> bool" where
  "is_white c = (c \<in> set [CHR 0x09, CHR 0x0A, CHR 0x0B, CHR 0x0C, CHR 0x0D, CHR 0x20, CHR 0xA0])"

definition is_digit :: "char \<Rightarrow> bool" where
  "is_digit c = (c \<in> set ''0123456789'')"

definition digit_val :: "char \<Rightarrow> nat" where
  "digit_val c = of_char c - 48"

definition digits_val :: "string \<Rightarrow> nat" where
  "digits_val ds = foldl (\<lambda>a c. 10 * a + digit_val c) 0 ds"

definition scale10 :: "real \<Rightarrow> int \<Rightarrow> real" where
  "scale10 x k = (if 0 \<le> k then x * 10 ^ nat k else x / 10 ^ nat (- k))"

text \<open>
  \<^verbatim>\<open>ExponentPart\<close>, optional: an \<^verbatim>\<open>e\<close> or \<^verbatim>\<open>E\<close>, an optional sign, and at least one
  digit. The result is the exponent and the text left over; an indicator without digits
  is not part of the literal.
\<close>

definition exponent_part :: "string \<Rightarrow> int \<times> string" where
  "exponent_part r =
     (case r of
        [] \<Rightarrow> (0, r)
      | c # r1 \<Rightarrow>
          if c = CHR ''e'' \<or> c = CHR ''E'' then
            (let (sg, r2) =
               (case r1 of
                  [] \<Rightarrow> (1, r1)
                | s # r' \<Rightarrow>
                    if s = CHR ''+'' then (1, r')
                    else if s = CHR ''-'' then (- 1, r')
                    else (1, r1));
                 ds = takeWhile is_digit r2
             in if ds = [] then (0, r)
                else (sg * int (digits_val ds), dropWhile is_digit r2))
          else (0, r))"

text \<open>
  \<^verbatim>\<open>StrUnsignedDecimalLiteral\<close>: \<^verbatim>\<open>Infinity\<close>, or digits with an optional fraction, or a
  fraction that starts with the point, each with an optional exponent part.
\<close>

definition unsigned_literal :: "string \<Rightarrow> (number \<times> string) option" where
  "unsigned_literal cs =
     (if take 8 cs = ''Infinity'' then Some (PosInf, drop 8 cs)
      else
        let ip = takeWhile is_digit cs;
            r1 = dropWhile is_digit cs;
            (fp, r2) =
              (case r1 of
                 [] \<Rightarrow> ([], r1)
               | c # r \<Rightarrow>
                   if c = CHR ''.'' \<and> (ip \<noteq> [] \<or> takeWhile is_digit r \<noteq> [])
                   then (takeWhile is_digit r, dropWhile is_digit r)
                   else ([], r1))
        in if ip = [] \<and> fp = [] then None
           else
             let (ex, r3) = exponent_part r2
             in Some (round64 (scale10 (real (digits_val (ip @ fp))) (ex - int (length fp))), r3))"

definition str_decimal_literal :: "string \<Rightarrow> (number \<times> string) option" where
  "str_decimal_literal cs =
     (case cs of
        [] \<Rightarrow> None
      | c # r \<Rightarrow>
          if c = CHR ''+'' then unsigned_literal r
          else if c = CHR ''-'' then map_option (\<lambda>(v, r'). (js_neg v, r')) (unsigned_literal r)
          else unsigned_literal cs)"

definition parseFloat :: "string \<Rightarrow> number" where
  "parseFloat s =
     (case str_decimal_literal (dropWhile is_white s) of
        None \<Rightarrow> NaN
      | Some (v, _) \<Rightarrow> v)"

section \<open>Arrays\<close>

text \<open>
  \<^verbatim>\<open>Array.prototype.slice(start, end)\<close>. Each argument goes through
  \<^verbatim>\<open>ToIntegerOrInfinity\<close> (NaN becomes 0, a finite value is truncated towards 0) and
  becomes an index between 0 and the length: a negative value counts from the end of the
  array, and what falls outside is clamped. The elements from the first index up to, and
  without, the second are returned; the call never throws.
\<close>

definition js_trunc :: "real \<Rightarrow> int" where
  "js_trunc a = (if 0 \<le> a then \<lfloor>a\<rfloor> else \<lceil>a\<rceil>)"

fun relative_index :: "nat \<Rightarrow> number \<Rightarrow> nat" where
  "relative_index len NaN = 0"
| "relative_index len NegInf = 0"
| "relative_index len PosInf = len"
| "relative_index len (Fin a) =
     (let i = js_trunc a
      in if i < 0 then nat (max (int len + i) 0) else nat (min i (int len)))"

definition slice :: "'a list \<Rightarrow> number \<Rightarrow> number \<Rightarrow> 'a list" where
  "slice arr start stop =
     (let k = relative_index (length arr) start;
          final = relative_index (length arr) stop
      in if k < final then take (final - k) (drop k arr) else [])"

text \<open>\<^verbatim>\<open>arr.length\<close> as a Number, and \<^verbatim>\<open>arr[i]\<close>, which is undefined out of range.\<close>

definition array_len :: "'a list \<Rightarrow> number" where
  "array_len arr = Fin (real (length arr))"

definition element :: "'a list \<Rightarrow> int \<Rightarrow> 'a option" where
  "element arr i = (if 0 \<le> i \<and> i < int (length arr) then Some (arr ! nat i) else None)"

text \<open>
  The window of the script, written three times in it (lines 64, 66 and 213):
  \<^verbatim>\<open>arr.slice(arr.length - array_length, arr.length)\<close>.
\<close>

definition window :: "'a list \<Rightarrow> number \<Rightarrow> 'a list" where
  "window arr n = slice arr (js_sub (array_len arr) n) (array_len arr)"

section \<open>Records and plot points\<close>

text \<open>
  One sample of the remote service: its time text and the four measurements.
  \<open>property obj key\<close> is the property read \<^verbatim>\<open>obj[key]\<close>.
\<close>

record reading =
  time :: string
  humidity :: number
  lux :: number
  temperature :: number
  pressure :: number

datatype jsval = Undefined | Num number | Str string

definition property :: "reading \<Rightarrow> string \<Rightarrow> jsval" where
  "property obj key =
     (if key = ''time'' then Str (time obj)
      else if key = ''humidity'' then Num (humidity obj)
      else if key = ''lux'' then Num (lux obj)
      else if key = ''temperature'' then Num (temperature obj)
      else if key = ''pressure'' then Num (pressure obj)
      else Undefined)"

datatype point = Point (px: number) (py: jsval)

text \<open>
  \<^verbatim>\<open>unpackData\<close> (line 59). \<^verbatim>\<open>Date.parse\<close> is a built-in of the browser; it is the
  parameter \<open>date_parse\<close> of everything that plots.
\<close>

definition unpackData :: "(string \<Rightarrow> number) \<Rightarrow> reading list \<Rightarrow> string \<Rightarrow> point list" where
  "unpackData date_parse array key = map (\<lambda>obj. Point (date_parse (time obj)) (property obj key)) array"

text \<open>
  What a call can throw: the TypeError of the language, or some other value, which the
  chart library may throw, kept by its text.
\<close>

datatype error = TypeError | Thrown string

text \<open>
  The latest value of a metric, as the four lines 181 to 184 read it:
  \<^verbatim>\<open>temp_unpackData(temp_parsedResponse, key)[temp_parsedResponse.length-1].y\<close>.
  Reading \<^verbatim>\<open>.y\<close> of an undefined element throws a TypeError.
\<close>

definition latest :: "(string \<Rightarrow> number) \<Rightarrow> reading list \<Rightarrow> string \<Rightarrow> error + jsval" where
  "latest date_parse arr key =
     (case element (unpackData date_parse arr key) (int (length arr) - 1) of
        None \<Rightarrow> Inl TypeError
      | Some p \<Rightarrow> Inr (py p))"

section \<open>The page\<close>

text \<open>
  The global variables of the script and what it does to the page. \<^verbatim>\<open>hours\<close> and
  \<^verbatim>\<open>parsedResponse\<close> are globals too, since the functions assign them without declaring
  them; a variable is \<open>None\<close> as long as it is undefined. \<^verbatim>\<open>temp_unpackData\<close> is set
  together with \<^verbatim>\<open>temp_parsedResponse\<close> and always holds \<^verbatim>\<open>unpackData\<close>, so it has no
  field of its own. A chart is the list of its named series, and clearing the chart,
  rendering it and alerting the user are entries of a trace. The four summary fields hold
  the latest values; turning them into text (rounding, unit symbol) is left out, and so
  are the calls of \<^verbatim>\<open>console.log\<close>.
\<close>

record series =
  name :: string
  data :: "point list"

datatype event = Cleared | Rendered "series list" | Alerted string

record page =
  array_length :: number
  hours :: "number option"
  temp_parsedResponse :: "reading list option"
  parsedResponse :: "reading list option"
  graph :: "series list option"
  temperatureValue :: "jsval option"
  humidityValue :: "jsval option"
  pressureValue :: "jsval option"
  luminosityValue :: "jsval option"
  trace :: "event list"

text \<open>
  What the script calls and does not define. \<^verbatim>\<open>Date.parse\<close> is a built-in of the
  browser. The chart library Rickshaw is not part of the repository, and each of its calls
  may throw, depending on the series it is given: \<open>new_Graph\<close> is
  \<^verbatim>\<open>new Rickshaw.Graph\<close> (lines 70 and 215), \<open>new_widgets\<close> is the configuration of the
  chart and the construction of its hover detail, axes, legend, toggle, highlighter and
  preview slider (lines 108 to 178), and \<open>graph_render\<close> is \<^verbatim>\<open>graph.render()\<close>
  (lines 99 and 247). Each gives what is thrown, or \<open>None\<close> when the call returns.
\<close>

record host =
  Date_parse :: "string \<Rightarrow> number"
  new_Graph :: "series list \<Rightarrow> error option"
  new_widgets :: "series list \<Rightarrow> error option"
  graph_render :: "series list \<Rightarrow> error option"

text \<open>Lines 19 to 25: the window the page starts with, from \<^verbatim>\<open>options.timeframe\<close>.\<close>

definition init :: "string \<Rightarrow> page" where
  "init timeframe =
     (let s = \<lparr>array_length = Fin 12961, hours = None, temp_parsedResponse = None,
               parsedResponse = None, graph = None, temperatureValue = None,
               humidityValue = None, pressureValue = None, luminosityValue = None,
               trace = []\<rparr>
      in if timeframe = ''Week'' then s\<lparr>array_length := Fin 1009\<rparr>
         else if timeframe = ''Month'' then s\<lparr>array_length := Fin 4321\<rparr>
         else s)"

definition emit :: "event \<Rightarrow> page \<Rightarrow> page" where
  "emit e s = s\<lparr>trace := trace s @ [e]\<rparr>"

definition clearGraph :: "page \<Rightarrow> page" where
  "clearGraph s = emit Cleared s"

definition alert :: "string \<Rightarrow> page \<Rightarrow> page" where
  "alert msg s = emit (Alerted msg) s"

text \<open>The series handed to \<^verbatim>\<open>new Rickshaw.Graph\<close> (lines 74 to 95 and 221 to 242).\<close>

definition new_graph :: "(string \<Rightarrow> number) \<Rightarrow> reading list \<Rightarrow> series list" where
  "new_graph date_parse rs =
     [\<lparr>name = ''Humidity'', data = unpackData date_parse rs ''humidity''\<rparr>,
      \<lparr>name = ''Lux'', data = unpackData date_parse rs ''lux''\<rparr>,
      \<lparr>name = ''Temperature'', data = unpackData date_parse rs ''temperature''\<rparr>,
      \<lparr>name = ''Pressure'', data = unpackData date_parse rs ''pressure''\<rparr>]"

text \<open>
  A function of the script returns the exception it throws, if any, and the page as it is
  at that moment. \<^verbatim>\<open>graph.render()\<close>: the variable is undefined before the first chart
  is made.
\<close>

definition render :: "host \<Rightarrow> page \<Rightarrow> error option \<times> page" where
  "render env s =
     (case graph s of
        None \<Rightarrow> (Some TypeError, s)
      | Some g \<Rightarrow>
          (case graph_render env g of
             Some e \<Rightarrow> (Some e, s)
           | None \<Rightarrow> (None, emit (Rendered g) s)))"

text \<open>
  \<^verbatim>\<open>addContents\<close>: the chart in \<^verbatim>\<open>graph\<close> is configured and given its widgets, which
  throws when the variable is still undefined or when the library does, and then the four
  summary fields are written in the order of the source (lines 181 to 184), which is
  \<open>write_summary\<close>.
\<close>

definition latest_of :: "(string \<Rightarrow> number) \<Rightarrow> page \<Rightarrow> string \<Rightarrow> error + jsval" where
  "latest_of date_parse s key =
     (case temp_parsedResponse s of
        None \<Rightarrow> Inl TypeError
      | Some arr \<Rightarrow> latest date_parse arr key)"

definition write_summary :: "(string \<Rightarrow> number) \<Rightarrow> page \<Rightarrow> error option \<times> page" where
  "write_summary date_parse s =
     (case latest_of date_parse s ''temperature'' of
        Inl e \<Rightarrow> (Some e, s)
      | Inr t \<Rightarrow>
          (let s1 = s\<lparr>temperatureValue := Some t\<rparr>
           in case latest_of date_parse s1 ''humidity'' of
                Inl e \<Rightarrow> (Some e, s1)
              | Inr h \<Rightarrow>
                  (let s2 = s1\<lparr>humidityValue := Some h\<rparr>
                   in case latest_of date_parse s2 ''pressure'' of
                        Inl e \<Rightarrow> (Some e, s2)
                      | Inr p \<Rightarrow>
                          (let s3 = s2\<lparr>pressureValue := Some p\<rparr>
                           in case latest_of date_parse s3 ''lux'' of
                                Inl e \<Rightarrow> (Some e, s3)
                              | Inr l \<Rightarrow> (None, s3\<lparr>luminosityValue := Some l\<rparr>)))))"

definition addContents :: "host \<Rightarrow> page \<Rightarrow> error option \<times> page" where
  "addContents env s =
     (case graph s of
        None \<Rightarrow> (Some TypeError, s)
      | Some g \<Rightarrow>
          (case new_widgets env g of
             Some e \<Rightarrow> (Some e, s)
           | None \<Rightarrow> write_summary (Date_parse env) s))"

text \<open>
  The callback of \<^verbatim>\<open>loadData\<close> that receives the parsed response (lines 58 to 100). An
  exception thrown in it is caught by the \<^verbatim>\<open>catch\<close> of the promise and logged.
\<close>

definition loadData :: "host \<Rightarrow> reading list \<Rightarrow> page \<Rightarrow> page" where
  "loadData env response s =
     (let s1 = s\<lparr>temp_parsedResponse := Some response\<rparr>;
          sliced = window response (array_length s1);
          g = new_graph (Date_parse env) sliced
      in case new_Graph env g of
           Some e \<Rightarrow> s1
         | None \<Rightarrow>
             (case addContents env (s1\<lparr>graph := Some g\<rparr>) of
                (Some e, s3) \<Rightarrow> s3
              | (None, s3) \<Rightarrow> snd (render env s3)))"

text \<open>\<^verbatim>\<open>updateGraph\<close> (lines 192 to 249).\<close>

definition updateGraph :: "host \<Rightarrow> string \<Rightarrow> page \<Rightarrow> error option \<times> page" where
  "updateGraph env timestamp s =
     (let s1 = (if timestamp = ''QuarterYear'' then s\<lparr>array_length := Fin 12961\<rparr>
                else if timestamp = ''Month'' then s\<lparr>array_length := Fin 4321\<rparr>
                else if timestamp = ''Week'' then s\<lparr>array_length := Fin 1009\<rparr>
                else if timestamp = ''Day'' then s\<lparr>array_length := Fin 145\<rparr>
                else if timestamp = ''last'' then s\<lparr>array_length := array_length s\<rparr>
                else s);
          s2 = clearGraph s1
      in case temp_parsedResponse s2 of
           None \<Rightarrow> (Some TypeError, s2)
         | Some arr \<Rightarrow>
             (let rs = window arr (array_length s2);
                  s3 = s2\<lparr>parsedResponse := Some rs\<rparr>;
                  g = new_graph (Date_parse env) rs
              in case new_Graph env g of
                   Some e \<Rightarrow> (Some e, s3)
                 | None \<Rightarrow>
                     (case addContents env (s3\<lparr>graph := Some g\<rparr>) of
                        (Some e, s5) \<Rightarrow> (Some e, s5)
                      | (None, s5) \<Rightarrow> render env s5)))"

text \<open>
  \<^verbatim>\<open>customTimestamp\<close> (lines 251 to 269). \<open>person\<close> is what \<^verbatim>\<open>prompt\<close> returned:
  the text entered, or null (\<open>None\<close>) when the dialog was cancelled, which
  \<^verbatim>\<open>parseFloat\<close> reads as the text \<^verbatim>\<open>null\<close>.
\<close>

definition to_string :: "string option \<Rightarrow> string" where
  "to_string person = (case person of None \<Rightarrow> ''null'' | Some text \<Rightarrow> text)"

definition customTimestamp :: "host \<Rightarrow> string option \<Rightarrow> page \<Rightarrow> error option \<times> page" where
  "customTimestamp env person s =
     (let h = parseFloat (to_string person);
          s1 = s\<lparr>hours := Some h\<rparr>
      in if isNaN h then
           if person = None \<or> person = Some [] then (None, s1)
           else (None, alert ''Only use numbers!'' s1)
         else if js_le h (Fin 0) \<or> js_ge h (Fin 2160) then
           (None, alert ''Hours can't be less or equal to 0 or higher than 2160!'' s1)
         else updateGraph env ''last'' (s1\<lparr>array_length := js_mul h (Fin 6)\<rparr>))"

section \<open>Numeric and non-numeric text\<close>

text \<open>
  The characters a numeric literal is written with. Text that starts with any other
  character cannot continue a literal.
\<close>

definition numeric_char :: "char \<Rightarrow> bool" where
  "numeric_char c = (c \<in> set ''0123456789.eE+-'')"

text \<open>
  A text starts with a number when, after its leading white space, a prefix of it is a
  decimal literal; this is when \<^verbatim>\<open>parseFloat\<close> finds a number in it. A text is numeric
  when nothing but white space is left of it after that literal. So \<^verbatim>\<open>12abc\<close> starts
  with a number and is not numeric, and \<^verbatim>\<open>abc\<close> does neither.
\<close>

definition starts_with_number :: "string \<Rightarrow> bool" where
  "starts_with_number s = (str_decimal_literal (dropWhile is_white s) \<noteq> None)"

definition numeric_text :: "string \<Rightarrow> bool" where
  "numeric_text s =
     (case str_decimal_literal (dropWhile is_white s) of
        None \<Rightarrow> False
      | Some (v, r) \<Rightarrow> dropWhile is_white r = [])"

section \<open>A sample page\<close>

text \<open>
  A store of four readings, ten minutes apart, with the values \<^verbatim>\<open>Date.parse\<close> gives for
  their time texts. The sample library builds and renders every chart, and its widgets
  throw a TypeError when a series of the chart has no point, as the preview slider does
  when it reads the first point of each series. The sample page is the page once
  \<^verbatim>\<open>loadData\<close> has received the store.
\<close>

definition sample_clock :: "string \<Rightarrow> number" where
  "sample_clock t =
     (if t = ''2020-01-09T10:00:00Z'' then Fin 1578564000000
      else if t = ''2020-01-09T10:10:00Z'' then Fin 1578564600000
      else if t = ''2020-01-09T10:20:00Z'' then Fin 1578565200000
      else if t = ''2020-01-09T10:30:00Z'' then Fin 1578565800000
      else NaN)"

definition sample_store :: "reading list" where
  "sample_store =
     [\<lparr>time = ''2020-01-09T10:00:00Z'', humidity = Fin 41, lux = Fin 12,
       temperature = Fin 20, pressure = Fin 1\<rparr>,
      \<lparr>time = ''2020-01-09T10:10:00Z'', humidity = Fin 42, lux = Fin 13,
       temperature = Fin 21, pressure = Fin 1\<rparr>,
      \<lparr>time = ''2020-01-09T10:20:00Z'', humidity = Fin 43, lux = Fin 14,
       temperature = Fin 22, pressure = Fin 1\<rparr>,
      \<lparr>time = ''2020-01-09T10:30:00Z'', humidity = Fin 44, lux = Fin 15,
       temperature = Fin 23, pressure = Fin 1\<rparr>]"

definition sample_widgets :: "series list \<Rightarrow> error option" where
  "sample_widgets g = (if list_ex (\<lambda>sr. data sr = []) g then Some TypeError else None)"

definition sample_host :: host where
  "sample_host =
     \<lparr>Date_parse = sample_clock, new_Graph = (\<lambda>g. None), new_widgets = sample_widgets,
      graph_render = (\<lambda>g. None)\<rparr>"

definition sample_page :: page where
  "sample_page = loadData sample_host sample_store (init ''QuarterYear'')"

section \<open>Evaluation and basic facts\<close>

text \<open>Rules that evaluate the rounding and the parser on numerals and literals.\<close>

lemma bitlen_zero: "bitlen 0 = 0"
  by (simp add: bitlen.simps)

lemma bitlen_Suc0: "bitlen (Suc 0) = 1"
  by (simp add: bitlen.simps)

lemma bitlen_numeral: "bitlen (numeral k) = 1 + bitlen (numeral k div 2)"
  by (subst bitlen.simps) simp

lemmas num_ev = round64_def round64_pos_def binexp_def bitlen_zero bitlen_Suc0 bitlen_numeral
  scale2_def round_half_even_def Let_def

lemmas parse_ev = parseFloat_def str_decimal_literal_def unsigned_literal_def exponent_part_def
  is_white_def is_digit_def digit_val_def digits_val_def scale10_def

lemmas slice_ev = window_def slice_def array_len_def js_trunc_def

lemma parseFloat_null: "parseFloat ''null'' = NaN"
  by (simp add: parse_ev)

lemma parseFloat_empty: "parseFloat [] = NaN"
  by (simp add: parse_ev)

subsection \<open>Rounding is exact on the integers below \<open>2^53\<close>\<close>

lemma bitlen_le: "n < 2 ^ m \<Longrightarrow> bitlen n \<le> int m"
proof (induction m arbitrary: n)
  case 0
  then show ?case by (simp add: bitlen_zero)
next
  case (Suc m)
  show ?case
  proof (cases "n = 0")
    case True
    then show ?thesis by (simp add: bitlen_zero)
  next
    case False
    from Suc.prems have "n div 2 < 2 ^ m" by simp
    then have "bitlen (n div 2) \<le> int m" by (rule Suc.IH)
    then show ?thesis
      using False by (subst bitlen.simps) simp
  qed
qed

lemma bitlen_pos: "0 < n \<Longrightarrow> 1 \<le> bitlen n"
proof -
  assume "0 < n"
  moreover have "0 \<le> bitlen k" for k
    by (induction k rule: bitlen.induct) (subst bitlen.simps, simp)
  ultimately show ?thesis
    by (subst bitlen.simps) (simp add: add_increasing2)
qed

lemma round_half_even_of_int: "round_half_even (of_int m) = m"
  by (simp add: round_half_even_def)

lemma round64_pos_nat:
  assumes "0 < n" and "n < 2 ^ 53"
  shows "round64_pos (real n) = Fin (real n)"
proof -
  define e where "e = bitlen n - 1"
  have e0: "0 \<le> e" using bitlen_pos [OF assms(1)] by (simp add: e_def)
  have e52: "e \<le> 52" using bitlen_le [OF assms(2)] by (simp add: e_def)
  have be: "binexp (real n) = e"
    using assms(1) by (simp add: binexp_def e_def)
  have mx: "max e (- 1022) = e" using e0 by simp
  define k where "k = nat (52 - e)"
  have s1: "scale2 (real n) (52 - e) = of_int (int n * 2 ^ k)"
    using e52 by (simp add: scale2_def k_def)
  have s2: "scale2 (of_int (int n * 2 ^ k)) (e - 52) = real n"
  proof (cases "e = 52")
    case True
    then show ?thesis by (simp add: scale2_def k_def)
  next
    case False
    then have "\<not> 0 \<le> e - 52" using e52 by simp
    moreover have "nat (- (e - 52)) = k" by (simp add: k_def)
    ultimately show ?thesis by (simp add: scale2_def)
  qed
  have small: "\<not> (2::real) ^ 1024 \<le> real n"
  proof -
    have "real n < 2 ^ 53" using assms(2) by (metis of_nat_less_iff of_nat_numeral of_nat_power)
    also have "(2::real) ^ 53 \<le> 2 ^ 1024" by (rule power_increasing) simp_all
    finally show ?thesis by simp
  qed
  show ?thesis
    unfolding round64_pos_def be mx Let_def s1 round_half_even_of_int s2
    using small by simp
qed

lemma round64_int:
  assumes "\<bar>k\<bar> < 2 ^ 53"
  shows "round64 (of_int k) = Fin (of_int k)"
proof -
  consider "k = 0" | "0 < k" | "k < 0" by linarith
  then show ?thesis
  proof cases
    case 1
    then show ?thesis by (simp add: round64_def)
  next
    case 2
    then have "0 < nat k" "nat k < 2 ^ 53" using assms by (simp_all add: nat_less_iff)
    from round64_pos_nat [OF this] show ?thesis
      using 2 by (simp add: round64_def)
  next
    case 3
    then have "0 < nat (- k)" "nat (- k) < 2 ^ 53" using assms by (simp_all add: nat_less_iff)
    from round64_pos_nat [OF this] show ?thesis
      using 3 by (simp add: round64_def)
  qed
qed

subsection \<open>Text after a literal does not change what is parsed\<close>

lemma takeWhile_stop: "\<not> P c \<Longrightarrow> takeWhile P (xs @ c # t) = takeWhile P xs"
  by (induction xs) auto

lemma dropWhile_stop: "\<not> P c \<Longrightarrow> dropWhile P (xs @ c # t) = dropWhile P xs @ c # t"
  by (induction xs) auto

lemma numeric_charD:
  assumes "\<not> numeric_char c"
  shows "\<not> is_digit c" "c \<noteq> CHR ''.''" "c \<noteq> CHR ''e''" "c \<noteq> CHR ''E''"
    "c \<noteq> CHR ''+''" "c \<noteq> CHR ''-''"
  using assms by (auto simp: numeric_char_def is_digit_def)

lemma exponent_part_append:
  assumes "\<not> numeric_char c" and "exponent_part r = (ex, r3)"
  shows "exponent_part (r @ c # t) = (ex, r3 @ c # t)"
proof (cases r)
  case Nil
  then show ?thesis
    using assms numeric_charD [OF assms(1)] by (simp add: exponent_part_def)
next
  case (Cons d r1)
  note r = Cons
  show ?thesis
  proof (cases "d = CHR ''e'' \<or> d = CHR ''E''")
    case False
    then show ?thesis
      using assms r by (auto simp: exponent_part_def)
  next
    case True
    show ?thesis
    proof (cases r1)
      case Nil
      then show ?thesis
        using assms r True numeric_charD [OF assms(1)]
        by (auto simp: exponent_part_def)
    next
      case (Cons sg r')
      then show ?thesis
        using assms r True numeric_charD [OF assms(1)]
        by (auto simp: exponent_part_def Let_def takeWhile_stop dropWhile_stop
            takeWhile_stop [where xs = "sg # r'", simplified]
            dropWhile_stop [where xs = "sg # r'", simplified] split: if_splits)
    qed
  qed
qed


lemma unsigned_literal_head:
  assumes "unsigned_literal u = Some (v, r)" and "take 8 u \<noteq> ''Infinity''"
  shows "\<exists>d u'. u = d # u' \<and> (is_digit d \<or> d = CHR ''.'')"
proof (cases u)
  case Nil
  then show ?thesis
    using assms by (simp add: unsigned_literal_def)
next
  case (Cons d u')
  show ?thesis
  proof (cases "is_digit d \<or> d = CHR ''.''")
    case True
    then show ?thesis using Cons by simp
  next
    case False
    then have "unsigned_literal u = None"
      using Cons assms(2) by (simp add: unsigned_literal_def)
    then show ?thesis using assms(1) by simp
  qed
qed

lemma not_Infinity_append:
  assumes "u = d # u'" and "is_digit d \<or> d = CHR ''.''"
  shows "take 8 (u @ t) \<noteq> ''Infinity''"
  using assms by (auto simp: is_digit_def)

lemma unsigned_literal_append:
  assumes nn: "\<not> numeric_char c" and lit: "unsigned_literal u = Some (v, r)"
  shows "unsigned_literal (u @ c # t) = Some (v, r @ c # t)"
proof (cases "take 8 u = ''Infinity''")
  case True
  then have "length (take 8 u) = 8"
    by simp
  then have "8 \<le> length u"
    by (simp add: min_def split: if_splits)
  then show ?thesis
    using True lit by (simp add: unsigned_literal_def)
next
  case False
  obtain d u' where u: "u = d # u'" and d: "is_digit d \<or> d = CHR ''.''"
    using unsigned_literal_head [OF lit False] by blast
  have noinf: "take 8 (u @ c # t) \<noteq> ''Infinity''"
    using not_Infinity_append [OF u d] .
  note nc = numeric_charD [OF nn]
  define ip where "ip = takeWhile is_digit u"
  define r1 where "r1 = dropWhile is_digit u"
  define fr where "fr = (case r1 of [] \<Rightarrow> ([], r1)
     | x # q \<Rightarrow> if x = CHR ''.'' \<and> (ip \<noteq> [] \<or> takeWhile is_digit q \<noteq> [])
                    then (takeWhile is_digit q, dropWhile is_digit q) else ([], r1))"
  define fp where "fp = fst fr"
  define r2 where "r2 = snd fr"
  have ip': "takeWhile is_digit (u @ c # t) = ip"
    using nc(1) by (simp add: ip_def takeWhile_stop)
  have r1': "dropWhile is_digit (u @ c # t) = r1 @ c # t"
    using nc(1) by (simp add: r1_def dropWhile_stop)
  have fr': "(case r1 @ c # t of [] \<Rightarrow> ([], r1 @ c # t)
     | x # q \<Rightarrow> if x = CHR ''.'' \<and> (ip \<noteq> [] \<or> takeWhile is_digit q \<noteq> [])
                    then (takeWhile is_digit q, dropWhile is_digit q) else ([], r1 @ c # t))
     = (fp, r2 @ c # t)"
    using nc(1,2)
    by (cases r1) (auto simp: fp_def r2_def fr_def takeWhile_stop dropWhile_stop)
  have fr_eq: "fr = (fp, r2)"
    by (simp add: fp_def r2_def)
  from lit False have nonempty: "\<not> (ip = [] \<and> fp = [])"
    unfolding unsigned_literal_def ip_def [symmetric] r1_def [symmetric] Let_def
      fr_def [symmetric] fr_eq
    by (auto split: if_splits)
  obtain ex r3 where ep: "exponent_part r2 = (ex, r3)"
    by (cases "exponent_part r2")
  from lit False nonempty ep
  have v: "v = round64 (scale10 (real (digits_val (ip @ fp))) (ex - int (length fp)))"
    and r: "r = r3"
    unfolding unsigned_literal_def ip_def [symmetric] r1_def [symmetric] Let_def
      fr_def [symmetric] fr_eq
    by (auto split: if_splits)
  have ep': "exponent_part (r2 @ c # t) = (ex, r3 @ c # t)"
    using exponent_part_append [OF nn ep] .
  show ?thesis
    unfolding unsigned_literal_def Let_def ip' r1' fr'
    using noinf nonempty ep' v r by simp
qed


lemma str_decimal_literal_append:
  assumes nn: "\<not> numeric_char c" and lit: "str_decimal_literal u = Some (v, r)"
  shows "str_decimal_literal (u @ c # t) = Some (v, r @ c # t)"
proof (cases u)
  case Nil
  then show ?thesis
    using lit by (simp add: str_decimal_literal_def)
next
  case (Cons d u')
  consider (plus) "d = CHR ''+''" | (minus) "d = CHR ''-''" | (none) "d \<noteq> CHR ''+''" "d \<noteq> CHR ''-''"
    by blast
  then show ?thesis
  proof cases
    case plus
    then have "unsigned_literal u' = Some (v, r)"
      using lit Cons by (simp add: str_decimal_literal_def)
    from unsigned_literal_append [OF nn this] show ?thesis
      using plus Cons by (simp add: str_decimal_literal_def)
  next
    case minus
    then obtain v0 where "unsigned_literal u' = Some (v0, r)" and v: "v = js_neg v0"
      using lit Cons by (auto simp: str_decimal_literal_def)
    from unsigned_literal_append [OF nn this(1)] show ?thesis
      using minus Cons v by (simp add: str_decimal_literal_def)
  next
    case none
    then have "unsigned_literal u = Some (v, r)"
      using lit Cons by (simp add: str_decimal_literal_def)
    from unsigned_literal_append [OF nn this] show ?thesis
      using none Cons by (simp add: str_decimal_literal_def)
  qed
qed

lemma dropWhile_append_nonempty:
  "dropWhile P xs \<noteq> [] \<Longrightarrow> dropWhile P (xs @ ys) = dropWhile P xs @ ys"
  by (induction xs) auto

lemma parseFloat_append:
  assumes nn: "\<not> numeric_char c" and num: "parseFloat s \<noteq> NaN"
  shows "parseFloat (s @ c # t) = parseFloat s"
proof -
  from num obtain v r where lit: "str_decimal_literal (dropWhile is_white s) = Some (v, r)"
    by (auto simp: parseFloat_def split: option.splits)
  have "str_decimal_literal [] = None"
    by (simp add: str_decimal_literal_def)
  with lit have "dropWhile is_white s \<noteq> []"
    by (cases "dropWhile is_white s") simp_all
  then have "dropWhile is_white (s @ c # t) = dropWhile is_white s @ c # t"
    by (rule dropWhile_append_nonempty)
  with str_decimal_literal_append [OF nn lit] lit show ?thesis
    by (simp add: parseFloat_def)
qed

subsection \<open>The window, for a whole number of samples\<close>

text \<open>
  An array has fewer than \<open>2^32\<close> elements. For a whole number \<open>n\<close> of samples the
  window is the last \<open>n\<close> records when the store has at least \<open>n\<close>, and the whole
  store when \<open>n\<close> is at least twice its size. In between, the start index
  \<open>length - n\<close> is negative and \<^verbatim>\<open>slice\<close> counts it from the end of the array:
  the window is then the last \<open>n - length\<close> records only.
\<close>

lemma js_trunc_of_int: "js_trunc (of_int d) = d"
  by (simp add: js_trunc_def)

lemma relative_index_length: "relative_index (length arr) (array_len arr) = length arr"
proof -
  have "js_trunc (real (length arr)) = int (length arr)"
    using js_trunc_of_int [of "int (length arr)"] by simp
  then show ?thesis
    by (simp add: array_len_def)
qed

lemma window_start:
  assumes "length arr < 2 ^ 32" and "n < 2 ^ 53"
  shows "js_sub (array_len arr) (Fin (real n)) = Fin (of_int (int (length arr) - int n))"
proof -
  have "int (length arr) < 2 ^ 32"
    using assms(1) by (metis of_nat_less_iff of_nat_numeral of_nat_power)
  also have "(2::int) ^ 32 \<le> 2 ^ 53"
    by (rule power_increasing) simp_all
  finally have a: "int (length arr) < 2 ^ 53" .
  have b: "int n < 2 ^ 53"
    using assms(2) by (metis of_nat_less_iff of_nat_numeral of_nat_power)
  have "\<bar>int (length arr) - int n\<bar> < 2 ^ 53"
    using a b by linarith
  from round64_int [OF this] show ?thesis
    by (simp add: array_len_def)
qed

lemma window_count:
  assumes "length arr < 2 ^ 32" and "n < 2 ^ 53"
  shows "window arr (Fin (real n)) =
           drop (if n \<le> length arr then length arr - n else 2 * length arr - n) arr"
proof -
  let ?l = "length arr"
  have st: "js_sub (array_len arr) (Fin (real n)) = Fin (of_int (int ?l - int n))"
    by (rule window_start [OF assms])
  have k: "relative_index ?l (Fin (of_int (int ?l - int n))) =
             (if n \<le> ?l then ?l - n else 2 * ?l - n)"
    by (auto simp: js_trunc_of_int Let_def simp del: of_int_diff)
  show ?thesis
    unfolding window_def slice_def st relative_index_length k Let_def
    by auto
qed

lemma window_within:
  assumes "length arr < 2 ^ 32" and "n \<le> length arr"
  shows "window arr (Fin (real n)) = drop (length arr - n) arr"
    and "length (window arr (Fin (real n))) = n"
proof -
  have "length arr < 2 ^ 53"
    using assms(1) by (rule less_le_trans) simp
  then have "n < 2 ^ 53"
    using assms(2) by simp
  from window_count [OF assms(1) this] assms(2)
  show "window arr (Fin (real n)) = drop (length arr - n) arr"
    by simp
  then show "length (window arr (Fin (real n))) = n"
    using assms(2) by simp
qed

lemma window_wrapped:
  assumes "length arr < 2 ^ 32" and "length arr < n" and "n < 2 * length arr"
  shows "window arr (Fin (real n)) = drop (2 * length arr - n) arr"
    and "length (window arr (Fin (real n))) = n - length arr"
proof -
  have "2 * length arr < 2 ^ 53"
    using assms(1) by simp
  then have "n < 2 ^ 53"
    using assms(3) by simp
  from window_count [OF assms(1) this] assms(2)
  show "window arr (Fin (real n)) = drop (2 * length arr - n) arr"
    by simp
  then show "length (window arr (Fin (real n))) = n - length arr"
    using assms(2,3) by simp
qed

lemma window_whole:
  assumes "length arr < 2 ^ 32" and "2 * length arr \<le> n" and "n < 2 ^ 53"
  shows "window arr (Fin (real n)) = arr"
  using window_count [OF assms(1,3)] assms(2) by (cases "n \<le> length arr") auto

subsection \<open>A literal never denotes NaN\<close>

lemma isNaN_iff: "isNaN v \<longleftrightarrow> v = NaN"
  by (cases v) simp_all

lemma round64_pos_not_NaN: "round64_pos x \<noteq> NaN"
  by (simp add: round64_pos_def Let_def)

lemma js_neg_NaN: "js_neg v = NaN \<longleftrightarrow> v = NaN"
  by (cases v) simp_all

lemma round64_not_NaN: "round64 x \<noteq> NaN"
  by (simp add: round64_def js_neg_NaN round64_pos_not_NaN)

lemma unsigned_literal_not_NaN: "unsigned_literal cs = Some (v, r) \<Longrightarrow> v \<noteq> NaN"
  by (auto simp: unsigned_literal_def Let_def round64_not_NaN split: if_splits prod.splits)

lemma str_decimal_literal_not_NaN: "str_decimal_literal cs = Some (v, r) \<Longrightarrow> v \<noteq> NaN"
  by (auto simp: str_decimal_literal_def js_neg_NaN split: list.splits if_splits
      dest: unsigned_literal_not_NaN)

lemma parseFloat_NaN_iff: "parseFloat s = NaN \<longleftrightarrow> \<not> starts_with_number s"
  by (auto simp: parseFloat_def starts_with_number_def split: option.splits
      dest: str_decimal_literal_not_NaN)

lemma numeric_text_starts: "numeric_text s \<Longrightarrow> starts_with_number s"
  by (auto simp: numeric_text_def starts_with_number_def split: option.splits)

subsection \<open>The latest value and the summary fields\<close>

lemma element_last: "arr \<noteq> [] \<Longrightarrow> element arr (int (length arr) - 1) = Some (last arr)"
  by (cases arr rule: rev_cases) (auto simp: element_def nth_append)

lemma element_empty: "element [] i = None"
  by (simp add: element_def)

lemma latest_empty: "latest dp [] key = Inl TypeError"
  by (simp add: latest_def unpackData_def element_empty)

lemma latest_nonempty: "arr \<noteq> [] \<Longrightarrow> latest dp arr key = Inr (property (last arr) key)"
proof -
  assume ne: "arr \<noteq> []"
  then have "unpackData dp arr key \<noteq> []"
    by (simp add: unpackData_def)
  then have "element (unpackData dp arr key) (int (length (unpackData dp arr key)) - 1)
             = Some (last (unpackData dp arr key))"
    by (rule element_last)
  moreover have "length (unpackData dp arr key) = length arr"
    by (simp add: unpackData_def)
  moreover have "last (unpackData dp arr key) = Point (dp (time (last arr))) (property (last arr) key)"
    using ne by (simp add: unpackData_def last_map)
  ultimately show ?thesis
    by (simp add: latest_def)
qed

lemma write_summary_nonempty:
  assumes "temp_parsedResponse s = Some arr" and "arr \<noteq> []"
  shows "write_summary dp s =
           (None, s\<lparr>temperatureValue := Some (property (last arr) ''temperature''),
                     humidityValue := Some (property (last arr) ''humidity''),
                     pressureValue := Some (property (last arr) ''pressure''),
                     luminosityValue := Some (property (last arr) ''lux'')\<rparr>)"
  using assms by (simp add: write_summary_def latest_of_def latest_nonempty)

lemma addContents_nonempty:
  assumes "temp_parsedResponse s = Some arr" and "arr \<noteq> []" and "graph s = Some g"
    and "new_widgets env g = None"
  shows "addContents env s =
           (None, s\<lparr>temperatureValue := Some (property (last arr) ''temperature''),
                     humidityValue := Some (property (last arr) ''humidity''),
                     pressureValue := Some (property (last arr) ''pressure''),
                     luminosityValue := Some (property (last arr) ''lux'')\<rparr>)"
  using assms by (simp add: addContents_def write_summary_nonempty)

lemma addContents_widgets_throw:
  assumes "graph s = Some g" and "new_widgets env g = Some e"
  shows "addContents env s = (Some e, s)"
  using assms by (simp add: addContents_def)

lemma write_summary_array_length: "array_length (snd (write_summary dp s)) = array_length s"
  by (simp add: write_summary_def Let_def split: sum.splits)

lemma write_summary_trace: "trace (snd (write_summary dp s)) = trace s"
  by (simp add: write_summary_def Let_def split: sum.splits)

lemma write_summary_store: "temp_parsedResponse (snd (write_summary dp s)) = temp_parsedResponse s"
  by (simp add: write_summary_def Let_def split: sum.splits)

lemma write_summary_parsedResponse: "parsedResponse (snd (write_summary dp s)) = parsedResponse s"
  by (simp add: write_summary_def Let_def split: sum.splits)

lemma addContents_array_length: "array_length (snd (addContents env s)) = array_length s"
  by (simp add: addContents_def write_summary_array_length split: option.splits)

lemma addContents_trace: "trace (snd (addContents env s)) = trace s"
  by (simp add: addContents_def write_summary_trace split: option.splits)

lemma addContents_store: "temp_parsedResponse (snd (addContents env s)) = temp_parsedResponse s"
  by (simp add: addContents_def write_summary_store split: option.splits)

lemma addContents_parsedResponse: "parsedResponse (snd (addContents env s)) = parsedResponse s"
  by (simp add: addContents_def write_summary_parsedResponse split: option.splits)

lemma render_array_length: "array_length (snd (render env s)) = array_length s"
  by (simp add: render_def emit_def split: option.splits)

lemma render_store: "temp_parsedResponse (snd (render env s)) = temp_parsedResponse s"
  by (simp add: render_def emit_def split: option.splits)

lemma render_parsedResponse: "parsedResponse (snd (render env s)) = parsedResponse s"
  by (simp add: render_def emit_def split: option.splits)

subsection \<open>What a window change does to the page\<close>

text \<open>
  After the summary is written the chart is rendered, unless something was thrown. This
  last step keeps the sample count, the store and the window, and alerts nothing.
\<close>

lemma finish_array_length:
  "array_length (snd (case r of (Some e, s5) \<Rightarrow> (Some e, s5) | (None, s5) \<Rightarrow> render env s5))
     = array_length (snd r)"
  by (cases r; cases "fst r") (auto simp: render_array_length)

lemma finish_parsedResponse:
  "parsedResponse (snd (case r of (Some e, s5) \<Rightarrow> (Some e, s5) | (None, s5) \<Rightarrow> render env s5))
     = parsedResponse (snd r)"
  by (cases r; cases "fst r") (auto simp: render_parsedResponse)

lemma finish_alerts:
  assumes "Alerted msg \<in> set (trace (snd (case r of (Some e, s5) \<Rightarrow> (Some e, s5)
                                              | (None, s5) \<Rightarrow> render env s5)))"
  shows "Alerted msg \<in> set (trace (snd r))"
  using assms by (cases r; cases "fst r") (auto simp: render_def emit_def split: option.splits)

lemma updateGraph_array_length:
  "array_length (snd (updateGraph env t s)) =
     (if t = ''QuarterYear'' then Fin 12961 else if t = ''Month'' then Fin 4321
      else if t = ''Week'' then Fin 1009 else if t = ''Day'' then Fin 145 else array_length s)"
proof (cases "temp_parsedResponse s")
  case None
  then show ?thesis
    by (simp add: updateGraph_def Let_def clearGraph_def emit_def)
next
  case (Some arr)
  then show ?thesis
    by (simp add: updateGraph_def Let_def clearGraph_def emit_def finish_array_length
        addContents_array_length split: option.splits)
qed

lemma updateGraph_parsedResponse:
  assumes "temp_parsedResponse s = Some arr"
  shows "parsedResponse (snd (updateGraph env t s)) =
     Some (window arr (if t = ''QuarterYear'' then Fin 12961 else if t = ''Month'' then Fin 4321
       else if t = ''Week'' then Fin 1009 else if t = ''Day'' then Fin 145 else array_length s))"
  using assms
  by (simp add: updateGraph_def Let_def clearGraph_def emit_def finish_parsedResponse
      addContents_parsedResponse split: option.splits)

lemma updateGraph_alerts:
  assumes "Alerted msg \<in> set (trace (snd (updateGraph env t s)))"
  shows "Alerted msg \<in> set (trace s)"
proof (cases "temp_parsedResponse s")
  case None
  then show ?thesis
    using assms by (auto simp: updateGraph_def Let_def clearGraph_def emit_def split: if_splits)
next
  case (Some arr)
  then show ?thesis
    using assms
    by (auto simp: updateGraph_def Let_def clearGraph_def emit_def addContents_trace
        dest!: finish_alerts split: if_splits option.splits)
qed


lemma loadData_finish:
  "loadData env response s = s\<lparr>temp_parsedResponse := Some response\<rparr> \<or>
   (\<exists>r. loadData env response s = snd r \<and>
        array_length (snd r) = array_length s \<and>
        temp_parsedResponse (snd r) = Some response)"
proof -
  define s1 where "s1 = s\<lparr>temp_parsedResponse := Some response\<rparr>"
  define g where "g = new_graph (Date_parse env) (window response (array_length s1))"
  show ?thesis
  proof (cases "new_Graph env g")
    case (Some e)
    then have "loadData env response s = s1"
      by (simp add: loadData_def Let_def s1_def g_def)
    then show ?thesis by (simp add: s1_def)
  next
    case None
    obtain e s3 where a: "addContents env (s1\<lparr>graph := Some g\<rparr>) = (e, s3)"
      by (cases "addContents env (s1\<lparr>graph := Some g\<rparr>)")
    have al: "array_length s3 = array_length s"
      using addContents_array_length [of env "s1\<lparr>graph := Some g\<rparr>"] a by (simp add: s1_def)
    have st: "temp_parsedResponse s3 = Some response"
      using addContents_store [of env "s1\<lparr>graph := Some g\<rparr>"] a by (simp add: s1_def)
    have l: "loadData env response s = (case e of Some x \<Rightarrow> s3 | None \<Rightarrow> snd (render env s3))"
      using None a by (simp add: loadData_def Let_def s1_def g_def split: option.splits)
    show ?thesis
    proof (cases e)
      case None
      then have "loadData env response s = snd (render env s3)"
        using l by simp
      then show ?thesis
        using al st by (auto simp: render_array_length render_store)
    next
      case (Some x)
      then have "loadData env response s = snd (e, s3)"
        using l by simp
      then show ?thesis
        using al st by (metis snd_conv)
    qed
  qed
qed

lemma loadData_store: "temp_parsedResponse (loadData env response s) = Some response"
  using loadData_finish [of env response s] by auto

lemma loadData_array_length: "array_length (loadData env response s) = array_length s"
  using loadData_finish [of env response s] by auto

lemma select_window:
  "(if t = ''QuarterYear'' then s\<lparr>array_length := Fin 12961\<rparr>
    else if t = ''Month'' then s\<lparr>array_length := Fin 4321\<rparr>
    else if t = ''Week'' then s\<lparr>array_length := Fin 1009\<rparr>
    else if t = ''Day'' then s\<lparr>array_length := Fin 145\<rparr>
    else if t = ''last'' then s\<lparr>array_length := array_length s\<rparr>
    else s) =
   s\<lparr>array_length := (if t = ''QuarterYear'' then Fin 12961 else if t = ''Month'' then Fin 4321
              else if t = ''Week'' then Fin 1009 else if t = ''Day'' then Fin 145
              else array_length s)\<rparr>"
  by simp

lemma updateGraph_eq:
  assumes "n = (if t = ''QuarterYear'' then Fin 12961 else if t = ''Month'' then Fin 4321
              else if t = ''Week'' then Fin 1009 else if t = ''Day'' then Fin 145
              else array_length s)"
    and "temp_parsedResponse s = Some arr"
    and "g = new_graph (Date_parse env) (window arr n)"
  shows "updateGraph env t s =
    (case new_Graph env g of
       Some e \<Rightarrow> (Some e, s\<lparr>array_length := n, trace := trace s @ [Cleared],
                            parsedResponse := Some (window arr n)\<rparr>)
     | None \<Rightarrow>
         (case addContents env (s\<lparr>array_length := n, trace := trace s @ [Cleared],
                                   parsedResponse := Some (window arr n), graph := Some g\<rparr>) of
            (Some e, s5) \<Rightarrow> (Some e, s5)
          | (None, s5) \<Rightarrow> render env s5))"
  unfolding updateGraph_def select_window assms(1) [symmetric]
  using assms(2,3)
  by (simp add: Let_def clearGraph_def emit_def cong: option.case_cong prod.case_cong)

lemma updateGraph_loaded:
  assumes "temp_parsedResponse s = Some arr" and "arr \<noteq> []"
    and "n = (if t = ''QuarterYear'' then Fin 12961 else if t = ''Month'' then Fin 4321
              else if t = ''Week'' then Fin 1009 else if t = ''Day'' then Fin 145
              else array_length s)"
    and "g = new_graph (Date_parse env) (window arr n)"
    and "new_Graph env g = None" and "new_widgets env g = None" and "graph_render env g = None"
  shows "updateGraph env t s =
     (None, s\<lparr>array_length := n, parsedResponse := Some (window arr n),
           graph := Some g,
           temperatureValue := Some (property (last arr) ''temperature''),
           humidityValue := Some (property (last arr) ''humidity''),
           pressureValue := Some (property (last arr) ''pressure''),
           luminosityValue := Some (property (last arr) ''lux''),
           trace := trace s @ [Cleared, Rendered g]\<rparr>)"
  unfolding updateGraph_eq [OF assms(3,1,4)]
  using assms(1,2,5,6,7)
  by (simp add: render_def emit_def addContents_nonempty [where arr = arr and g = g])

lemma updateGraph_widgets_throw:
  assumes "temp_parsedResponse s = Some arr"
    and "n = (if t = ''QuarterYear'' then Fin 12961 else if t = ''Month'' then Fin 4321
              else if t = ''Week'' then Fin 1009 else if t = ''Day'' then Fin 145
              else array_length s)"
    and "g = new_graph (Date_parse env) (window arr n)"
    and "new_Graph env g = None" and "new_widgets env g = Some e"
  shows "updateGraph env t s =
     (Some e, s\<lparr>array_length := n, parsedResponse := Some (window arr n),
           graph := Some g, trace := trace s @ [Cleared]\<rparr>)"
  unfolding updateGraph_eq [OF assms(2,1,3)]
  using assms(4,5)
  by (simp add: addContents_widgets_throw [where g = g and e = e])

lemma customTimestamp_accept:
  assumes "parseFloat (to_string person) = Fin h" and "0 < h" and "h < 2160"
  shows "customTimestamp env person s =
           updateGraph env ''last'' (s\<lparr>hours := Some (Fin h), array_length := round64 (h * 6)\<rparr>)"
  using assms by (simp add: customTimestamp_def Let_def js_ge_def)

subsection \<open>The sample page\<close>

lemma window_sample_all: "window sample_store (Fin 12961) = sample_store"
  by (simp add: slice_ev sample_store_def num_ev)

lemma sample_store_nonempty: "sample_store \<noteq> []"
  by (simp add: sample_store_def)

lemma last_sample_store:
  "last sample_store = \<lparr>time = ''2020-01-09T10:30:00Z'', humidity = Fin 44, lux = Fin 15,
       temperature = Fin 23, pressure = Fin 1\<rparr>"
  by (simp add: sample_store_def)

lemma sample_widgets_nonempty: "rs \<noteq> [] \<Longrightarrow> sample_widgets (new_graph dp rs) = None"
  by (simp add: sample_widgets_def new_graph_def unpackData_def)

lemma sample_widgets_empty: "sample_widgets (new_graph dp []) = Some TypeError"
  by (simp add: sample_widgets_def new_graph_def unpackData_def)

lemma sample_host_simps:
  "Date_parse sample_host = sample_clock" "new_Graph sample_host g = None"
  "new_widgets sample_host g = sample_widgets g" "graph_render sample_host g = None"
  by (simp_all add: sample_host_def)

lemma sample_page_eq:
  "sample_page =
     \<lparr>array_length = Fin 12961, hours = None, temp_parsedResponse = Some sample_store,
      parsedResponse = None, graph = Some (new_graph sample_clock sample_store),
      temperatureValue = Some (Num (Fin 23)), humidityValue = Some (Num (Fin 44)),
      pressureValue = Some (Num (Fin 1)), luminosityValue = Some (Num (Fin 15)),
      trace = [Rendered (new_graph sample_clock sample_store)]\<rparr>"
  unfolding sample_page_def loadData_def init_def
  by (simp add: window_sample_all sample_host_simps
      addContents_nonempty [OF _ sample_store_nonempty _
        sample_widgets_nonempty [OF sample_store_nonempty, of sample_clock,
          folded sample_host_simps(3) [of "new_graph sample_clock sample_store"]]]
      last_sample_store property_def render_def emit_def)

lemma sample_custom_window:
  assumes "parseFloat input = Fin h" and "0 < h" and "h < 2160"
    and "round64 (h * 6) = n" and "window sample_store n = sample_store"
  shows "customTimestamp sample_host (Some input) sample_page =
    (None, sample_page\<lparr>array_length := n, hours := Some (Fin h),
       parsedResponse := Some sample_store,
       trace := [Rendered (new_graph sample_clock sample_store), Cleared,
                 Rendered (new_graph sample_clock sample_store)]\<rparr>)"
proof -
  let ?s = "sample_page\<lparr>hours := Some (Fin h), array_length := round64 (h * 6)\<rparr>"
  have st: "temp_parsedResponse ?s = Some sample_store"
    by (simp add: sample_page_eq)
  have n: "n = (if ''last'' = ''QuarterYear'' then Fin 12961 else if ''last'' = ''Month'' then Fin 4321
              else if ''last'' = ''Week'' then Fin 1009 else if ''last'' = ''Day'' then Fin 145
              else array_length ?s)"
    using assms(4) by simp
  have g: "new_graph sample_clock sample_store = new_graph (Date_parse sample_host) (window sample_store n)"
    by (simp add: assms(5) sample_host_simps)
  have w: "new_widgets sample_host (new_graph sample_clock sample_store) = None"
    by (simp add: sample_host_simps sample_widgets_nonempty [OF sample_store_nonempty])
  have "customTimestamp sample_host (Some input) sample_page = updateGraph sample_host ''last'' ?s"
    using customTimestamp_accept [of "Some input" h sample_host sample_page] assms(1-3)
    by (simp add: to_string_def)
  also have "\<dots> = (None, sample_page\<lparr>array_length := n, hours := Some (Fin h),
       parsedResponse := Some sample_store,
       trace := [Rendered (new_graph sample_clock sample_store), Cleared,
                 Rendered (new_graph sample_clock sample_store)]\<rparr>)"
    unfolding updateGraph_loaded [OF st sample_store_nonempty n g sample_host_simps(2) w
        sample_host_simps(4)]
    by (simp add: assms(5) sample_page_eq last_sample_store property_def)
  finally show ?thesis .
qed

text \<open>
  An empty window: \<^verbatim>\<open>1e-20\<close> hours are accepted, the sample count is so small that
  the window of the sample store has no record, and the widgets of the sample library
  throw. The chart has been cleared and is not rendered, and a later
  \<^verbatim>\<open>updateGraph\<close> with a name that is no preset throws in the same way.
\<close>

lemma sample_empty_window:
  "fst (customTimestamp sample_host (Some ''1e-20'') sample_page) = Some TypeError"
  "trace (snd (customTimestamp sample_host (Some ''1e-20'') sample_page)) =
     trace sample_page @ [Cleared]"
  "fst (updateGraph sample_host ''Year''
     (snd (customTimestamp sample_host (Some ''1e-20'') sample_page))) = Some TypeError"
proof -
  let ?h = "6646139978924579 / 664613997892457936451903530140172288 :: real"
  let ?n = "Fin (2492302492096717 / 41538374868278621028243970633760768)"
  let ?s = "sample_page\<lparr>hours := Some (Fin ?h), array_length := round64 (?h * 6)\<rparr>"
  have p: "parseFloat ''1e-20'' = Fin ?h"
    by (simp add: parse_ev) (simp add: num_ev)
  have r: "round64 (?h * 6) = ?n"
    by (simp add: num_ev)
  have w: "window sample_store ?n = []"
    by (simp add: slice_ev sample_store_def num_ev)
  have st: "temp_parsedResponse ?s = Some sample_store"
    by (simp add: sample_page_eq)
  have n: "?n = (if ''last'' = ''QuarterYear'' then Fin 12961 else if ''last'' = ''Month'' then Fin 4321
              else if ''last'' = ''Week'' then Fin 1009 else if ''last'' = ''Day'' then Fin 145
              else array_length ?s)"
    using r by simp
  have g: "new_graph sample_clock [] = new_graph (Date_parse sample_host) (window sample_store ?n)"
    by (simp add: w sample_host_simps)
  have t: "new_widgets sample_host (new_graph sample_clock []) = Some TypeError"
    by (simp add: sample_host_simps sample_widgets_empty)
  have c: "customTimestamp sample_host (Some ''1e-20'') sample_page = updateGraph sample_host ''last'' ?s"
    using customTimestamp_accept [of "Some ''1e-20''" ?h sample_host sample_page] p
    by (simp add: to_string_def)
  note u = updateGraph_widgets_throw [OF st n g sample_host_simps(2) t]
  show "fst (customTimestamp sample_host (Some ''1e-20'') sample_page) = Some TypeError"
    unfolding c u by simp
  show "trace (snd (customTimestamp sample_host (Some ''1e-20'') sample_page)) =
     trace sample_page @ [Cleared]"
    unfolding c u by simp
  let ?s' = "snd (customTimestamp sample_host (Some ''1e-20'') sample_page)"
  have st': "temp_parsedResponse ?s' = Some sample_store"
    unfolding c u by (simp add: sample_page_eq)
  have n': "?n = (if ''Year'' = ''QuarterYear'' then Fin 12961 else if ''Year'' = ''Month'' then Fin 4321
              else if ''Year'' = ''Week'' then Fin 1009 else if ''Year'' = ''Day'' then Fin 145
              else array_length ?s')"
    unfolding c u by simp
  show "fst (updateGraph sample_host ''Year'' ?s') = Some TypeError"
    by (simp add: updateGraph_widgets_throw [OF st' n' g sample_host_simps(2) t])
qed

section \<open>The claims\<close>

text \<open>
  C1. The claim: the window returns exactly \<open>min n s\<close> records of a store of size
  \<open>s\<close>, the most recent ones, and the whole store when \<open>n\<close> exceeds \<open>s\<close>.
  The code does so when \<open>n \<le> s\<close> and when \<open>n \<ge> 2 * s\<close> (\<open>window_within\<close>,
  \<open>window_whole\<close>), and misses the case in between (\<open>window_wrapped\<close>). Here the
  code is run there: a store of 100 records and the preset \<^verbatim>\<open>Day\<close> of 145 samples give the
  last 45 records, not the 100 of the store; a store of four records and a window of six
  samples give the last two.
\<close>

theorem window_short_history:
  "window (replicate 100 r) (Fin 145) = replicate 45 r \<and>
   length (window (replicate 100 r) (Fin 145)) \<noteq> min 145 100 \<and>
   window [a, b, c, d] (Fin 6) = [c, d] \<and>
   parsedResponse (snd (updateGraph dp ''Day'' (loadData dp (replicate 100 r) (init timeframe))))
     = Some (replicate 45 r)"
proof -
  have w: "window (replicate 100 r) (Fin 145) = replicate 45 r"
    by (simp add: slice_ev num_ev)
  have v: "window [a, b, c, d] (Fin 6) = [c, d]"
    by (simp add: slice_ev num_ev)
  have "parsedResponse (snd (updateGraph dp ''Day'' (loadData dp (replicate 100 r) (init timeframe))))
     = Some (replicate 45 r)"
    by (simp add: updateGraph_parsedResponse [OF loadData_store] w)
  with w v show ?thesis by simp
qed

text \<open>
  C2, as stated, fails. The claim: for a parsed value \<open>h\<close> with \<open>0 < h < 2160\<close> the
  sample count becomes \<open>floor (h * 6)\<close>. For the input \<^verbatim>\<open>0.25\<close> the parsed value is
  \<open>1/4\<close>, and the code sets the sample count to \<open>3/2\<close>, which is not
  \<open>floor (3/2) = 1\<close>.
\<close>

theorem custom_window_not_floored:
  "parseFloat ''0.25'' = Fin (1 / 4) \<and> (0::real) < 1 / 4 \<and> (1 / 4 :: real) < 2160 \<and>
   array_length (snd (customTimestamp sample_host (Some ''0.25'') sample_page)) = Fin (3 / 2) \<and>
   array_length (snd (customTimestamp sample_host (Some ''0.25'') sample_page))
     \<noteq> Fin (real_of_int \<lfloor>(1 / 4 :: real) * 6\<rfloor>)"
proof -
  have p: "parseFloat ''0.25'' = Fin (1 / 4)"
    by (simp add: parse_ev num_ev)
  have r: "round64 (3 / 2) = Fin (3 / 2)"
    by (simp add: num_ev)
  have "array_length (snd (customTimestamp sample_host (Some ''0.25'') sample_page)) = Fin (3 / 2)"
    using customTimestamp_accept [of "Some ''0.25''" "1 / 4" sample_host sample_page] p r
    by (simp add: to_string_def updateGraph_array_length)
  with p show ?thesis by simp
qed

text \<open>
  C2, amended. For every input whose parsed value \<open>h\<close> satisfies \<open>0 < h < 2160\<close>,
  \<^verbatim>\<open>customTimestamp\<close> sets the sample count to the product \<open>h * 6\<close> of the two Numbers,
  which is not floored, and a later request for the window \<^verbatim>\<open>last\<close> leaves the sample
  count at that same value.
\<close>

theorem custom_window_sets_product:
  assumes "parseFloat input = Fin h" and "0 < h" and "h < 2160"
  shows "array_length (snd (customTimestamp dp (Some input) s)) = js_mul (Fin h) (Fin 6) \<and>
         array_length (snd (updateGraph dp ''last'' (snd (customTimestamp dp (Some input) s))))
           = js_mul (Fin h) (Fin 6)"
  using assms customTimestamp_accept [of "Some input" h dp s]
  by (simp add: to_string_def updateGraph_array_length)

theorem custom_window_sets_product_witness:
  "parseFloat ''24'' = Fin 24 \<and> (0::real) < 24 \<and> (24::real) < 2160 \<and>
   array_length (snd (customTimestamp sample_host (Some ''24'') sample_page)) = Fin 144 \<and>
   array_length (snd (updateGraph sample_host ''last''
       (snd (customTimestamp sample_host (Some ''24'') sample_page)))) = Fin 144"
proof -
  have p: "parseFloat ''24'' = Fin 24"
    by (simp add: parse_ev num_ev)
  have r: "round64 144 = Fin 144"
    by (simp add: num_ev)
  show ?thesis
    using custom_window_sets_product [OF p, of sample_host sample_page] p r by simp
qed

text \<open>
  C3. For every input whose parsed value is a number (not NaN) that is \<open>\<le> 0\<close> or
  \<open>\<ge> 2160\<close>, \<^verbatim>\<open>customTimestamp\<close> alerts that the hours are out of range, which is the
  \<^verbatim>\<open>OutOfRangeError\<close> of the specification, and does nothing else to the page: the sample
  count is unchanged, and so is the one a later request for \<^verbatim>\<open>last\<close> applies. The
  infinities, which \<^verbatim>\<open>parseFloat\<close> can return, are among these values.
\<close>

theorem custom_window_out_of_range:
  assumes "parseFloat input = v" and "\<not> isNaN v"
    and "js_le v (Fin 0) \<or> js_ge v (Fin 2160)"
  shows "customTimestamp dp (Some input) s =
           (None, s\<lparr>hours := Some v,
                    trace := trace s @ [Alerted ''Hours can't be less or equal to 0 or higher than 2160!'']\<rparr>) \<and>
         array_length (snd (customTimestamp dp (Some input) s)) = array_length s \<and>
         array_length (snd (updateGraph dp ''last'' (snd (customTimestamp dp (Some input) s))))
           = array_length s"
  using assms
  by (simp add: customTimestamp_def Let_def to_string_def alert_def emit_def
      updateGraph_array_length)

theorem custom_window_out_of_range_witness:
  "parseFloat ''0'' = Fin 0 \<and> parseFloat ''2160'' = Fin 2160 \<and>
   \<not> isNaN (Fin 0) \<and> js_le (Fin 0) (Fin 0) \<and> \<not> isNaN (Fin 2160) \<and> js_ge (Fin 2160) (Fin 2160) \<and>
   customTimestamp sample_host (Some ''0'') sample_page =
     (None, sample_page\<lparr>hours := Some (Fin 0),
        trace := trace sample_page @ [Alerted ''Hours can't be less or equal to 0 or higher than 2160!'']\<rparr>) \<and>
   array_length (snd (customTimestamp sample_host (Some ''2160'') sample_page)) = Fin 12961"
proof -
  have p0: "parseFloat ''0'' = Fin 0"
    by (simp add: parse_ev num_ev)
  have p1: "parseFloat ''2160'' = Fin 2160"
    by (simp add: parse_ev num_ev)
  have a: "array_length sample_page = Fin 12961"
    by (simp add: sample_page_eq)
  show ?thesis
    using custom_window_out_of_range [OF p0, of sample_host sample_page]
      custom_window_out_of_range [OF p1, of sample_host sample_page] p0 p1 a
    by (simp add: js_ge_def)
qed

text \<open>
  C4, as stated, fails. The claim: every non-empty non-numeric input string fails with
  \<^verbatim>\<open>NotANumberError\<close>. The text \<^verbatim>\<open>12abc\<close> is not empty and not numeric, and
  \<^verbatim>\<open>customTimestamp\<close> accepts it: nothing is thrown, no alert is added, the sample count
  becomes 72 and the chart is drawn again.
\<close>

theorem non_numeric_text_accepted:
  "''12abc'' \<noteq> [] \<and> \<not> numeric_text ''12abc'' \<and>
   customTimestamp sample_host (Some ''12abc'') sample_page =
     (None, sample_page\<lparr>array_length := Fin 72, hours := Some (Fin 12),
        parsedResponse := Some sample_store,
        trace := [Rendered (new_graph sample_clock sample_store), Cleared,
                  Rendered (new_graph sample_clock sample_store)]\<rparr>) \<and>
   Alerted ''Only use numbers!''
     \<notin> set (trace (snd (customTimestamp sample_host (Some ''12abc'') sample_page)))"
proof -
  have nn: "\<not> numeric_text ''12abc''"
    by (simp add: numeric_text_def parse_ev num_ev)
  have p: "parseFloat ''12abc'' = Fin 12"
    by (simp add: parse_ev num_ev)
  have r: "round64 (12 * 6) = Fin 72"
    by (simp add: num_ev)
  have w: "window sample_store (Fin 72) = sample_store"
    by (simp add: slice_ev sample_store_def num_ev)
  show ?thesis
    by (simp add: sample_custom_window [OF p _ _ r w] nn)
qed

text \<open>
  C4, amended. When the prompt is cancelled or left empty, \<^verbatim>\<open>customTimestamp\<close> returns at
  once: nothing is alerted or drawn and the window is unchanged (the \<^verbatim>\<open>NoOp\<close> of the
  specification). When the text is not empty and does not start, after its leading white
  space, with a decimal number, the user is alerted to use numbers only (the
  \<^verbatim>\<open>NotANumberError\<close>) and the window is unchanged as well; in both cases the only
  variable written is \<^verbatim>\<open>hours\<close>, which holds the NaN. A text that starts with a number,
  numeric as a whole or not, is never answered with that alert.
\<close>

theorem custom_window_noop_or_not_a_number:
  "(person = None \<or> person = Some [] \<longrightarrow>
      customTimestamp env person s = (None, s\<lparr>hours := Some NaN\<rparr>)) \<and>
   (input \<noteq> [] \<and> \<not> starts_with_number input \<longrightarrow>
      customTimestamp env (Some input) s =
        (None, s\<lparr>hours := Some NaN, trace := trace s @ [Alerted ''Only use numbers!'']\<rparr>)) \<and>
   (starts_with_number input \<longrightarrow>
      Alerted ''Only use numbers!'' \<in> set (trace (snd (customTimestamp env (Some input) s))) \<longrightarrow>
      Alerted ''Only use numbers!'' \<in> set (trace s))"
proof (intro conjI impI)
  assume "person = None \<or> person = Some []"
  then show "customTimestamp env person s = (None, s\<lparr>hours := Some NaN\<rparr>)"
    by (auto simp: customTimestamp_def Let_def to_string_def parseFloat_null parseFloat_empty)
next
  assume "input \<noteq> [] \<and> \<not> starts_with_number input"
  then have "input \<noteq> []" and "parseFloat input = NaN"
    by (simp_all add: parseFloat_NaN_iff)
  then show "customTimestamp env (Some input) s =
        (None, s\<lparr>hours := Some NaN, trace := trace s @ [Alerted ''Only use numbers!'']\<rparr>)"
    by (simp add: customTimestamp_def Let_def to_string_def alert_def emit_def)
next
  assume sw: "starts_with_number input"
    and al: "Alerted ''Only use numbers!'' \<in> set (trace (snd (customTimestamp env (Some input) s)))"
  define h where "h = parseFloat input"
  have nan: "\<not> isNaN h"
    using sw by (simp add: h_def isNaN_iff parseFloat_NaN_iff)
  show "Alerted ''Only use numbers!'' \<in> set (trace s)"
  proof (cases "js_le h (Fin 0) \<or> js_ge h (Fin 2160)")
    case True
    then have "trace (snd (customTimestamp env (Some input) s)) =
        trace s @ [Alerted ''Hours can't be less or equal to 0 or higher than 2160!'']"
      using nan by (simp add: customTimestamp_def Let_def to_string_def alert_def emit_def h_def)
    then show ?thesis
      using al by simp
  next
    case False
    then have "customTimestamp env (Some input) s =
        updateGraph env ''last'' (s\<lparr>hours := Some h, array_length := js_mul h (Fin 6)\<rparr>)"
      using nan by (simp add: customTimestamp_def Let_def to_string_def h_def)
    then show ?thesis
      using al by (auto dest: updateGraph_alerts)
  qed
qed

theorem custom_window_noop_or_not_a_number_witness:
  "customTimestamp sample_host None sample_page = (None, sample_page\<lparr>hours := Some NaN\<rparr>) \<and>
   customTimestamp sample_host (Some []) sample_page = (None, sample_page\<lparr>hours := Some NaN\<rparr>) \<and>
   ''abc'' \<noteq> [] \<and> \<not> starts_with_number ''abc'' \<and>
   customTimestamp sample_host (Some ''abc'') sample_page =
     (None, sample_page\<lparr>hours := Some NaN,
        trace := trace sample_page @ [Alerted ''Only use numbers!'']\<rparr>) \<and>
   starts_with_number ''1,5'' \<and>
   Alerted ''Only use numbers!''
     \<notin> set (trace (snd (customTimestamp sample_host (Some ''1,5'') sample_page)))"
proof -
  have n: "\<not> starts_with_number ''abc''"
    by (simp add: starts_with_number_def parse_ev)
  have y: "starts_with_number ''1,5''"
    by (simp add: starts_with_number_def parse_ev)
  have t: "Alerted ''Only use numbers!'' \<notin> set (trace sample_page)"
    by (simp add: sample_page_eq)
  show ?thesis
    using custom_window_noop_or_not_a_number [of None sample_host sample_page "''abc''"]
      custom_window_noop_or_not_a_number [of "Some []" sample_host sample_page "''1,5''"] n y t
    by auto
qed

text \<open>
  C5. Each of the four presets sets the sample count to its constant, 12961 for
  \<^verbatim>\<open>QuarterYear\<close>, 4321 for \<^verbatim>\<open>Month\<close>, 1009 for \<^verbatim>\<open>Week\<close> and 145 for \<^verbatim>\<open>Day\<close>,
  whatever the page was before, and selecting the same preset again gives the same value.
\<close>

theorem preset_constants:
  "array_length (snd (updateGraph dp ''QuarterYear'' s)) = Fin 12961 \<and>
   array_length (snd (updateGraph dp ''Month'' s)) = Fin 4321 \<and>
   array_length (snd (updateGraph dp ''Week'' s)) = Fin 1009 \<and>
   array_length (snd (updateGraph dp ''Day'' s)) = Fin 145 \<and>
   array_length (snd (updateGraph dp ''QuarterYear'' (snd (updateGraph dp ''QuarterYear'' s)))) = Fin 12961 \<and>
   array_length (snd (updateGraph dp ''Month'' (snd (updateGraph dp ''Month'' s)))) = Fin 4321 \<and>
   array_length (snd (updateGraph dp ''Week'' (snd (updateGraph dp ''Week'' s)))) = Fin 1009 \<and>
   array_length (snd (updateGraph dp ''Day'' (snd (updateGraph dp ''Day'' s)))) = Fin 145"
  by (simp add: updateGraph_array_length)

text \<open>
  C6, as stated, fails. The claim: a name that is none of the four presets fails with
  \<^verbatim>\<open>InvalidPresetError\<close> and triggers no re-render. On the sample page
  \<^verbatim>\<open>updateGraph('Year')\<close> returns without an exception, and the chart is cleared and
  rendered once more.
\<close>

theorem unknown_preset_rerenders:
  "''Year'' \<notin> {''QuarterYear'', ''Month'', ''Week'', ''Day''} \<and>
   fst (updateGraph sample_host ''Year'' sample_page) = None \<and>
   trace (snd (updateGraph sample_host ''Year'' sample_page)) =
     trace sample_page @ [Cleared, Rendered (new_graph sample_clock sample_store)]"
proof -
  have st: "temp_parsedResponse sample_page = Some sample_store"
    by (simp add: sample_page_eq)
  have n: "Fin 12961 = (if ''Year'' = ''QuarterYear'' then Fin 12961
              else if ''Year'' = ''Month'' then Fin 4321
              else if ''Year'' = ''Week'' then Fin 1009 else if ''Year'' = ''Day'' then Fin 145
              else array_length sample_page)"
    by (simp add: sample_page_eq)
  have g: "new_graph sample_clock sample_store =
      new_graph (Date_parse sample_host) (window sample_store (Fin 12961))"
    by (simp add: window_sample_all sample_host_simps)
  have w: "new_widgets sample_host (new_graph sample_clock sample_store) = None"
    by (simp add: sample_host_simps sample_widgets_nonempty [OF sample_store_nonempty])
  show ?thesis
    by (simp add: updateGraph_loaded [OF st sample_store_nonempty n g sample_host_simps(2) w
          sample_host_simps(4)])
qed

text \<open>
  C6, amended. For every name that is none of the four presets, \<^verbatim>\<open>updateGraph\<close> leaves
  the sample count unchanged and has no error of its own for the name. On a loaded,
  non-empty store, and when the chart library builds the chart of the unchanged window,
  gives it its widgets and renders it without throwing, \<^verbatim>\<open>updateGraph\<close> returns without
  an exception after it has cleared the chart, built it again from that window and
  rendered it; the series of the new chart are those of the old one whenever the old
  chart showed that window.
\<close>

theorem unknown_preset_keeps_window:
  assumes "t \<notin> {''QuarterYear'', ''Month'', ''Week'', ''Day''}"
  shows "array_length (snd (updateGraph env t s)) = array_length s \<and>
         (temp_parsedResponse s = Some arr \<and> arr \<noteq> [] \<and>
          g = new_graph (Date_parse env) (window arr (array_length s)) \<and>
          new_Graph env g = None \<and> new_widgets env g = None \<and> graph_render env g = None \<longrightarrow>
            fst (updateGraph env t s) = None \<and>
            graph (snd (updateGraph env t s)) = Some g \<and>
            trace (snd (updateGraph env t s)) = trace s @ [Cleared, Rendered g] \<and>
            (graph s = Some g \<longrightarrow> graph (snd (updateGraph env t s)) = graph s))"
proof (intro conjI impI)
  show "array_length (snd (updateGraph env t s)) = array_length s"
    using assms by (simp add: updateGraph_array_length)
next
  assume h: "temp_parsedResponse s = Some arr \<and> arr \<noteq> [] \<and>
          g = new_graph (Date_parse env) (window arr (array_length s)) \<and>
          new_Graph env g = None \<and> new_widgets env g = None \<and> graph_render env g = None"
  have n: "array_length s = (if t = ''QuarterYear'' then Fin 12961 else if t = ''Month'' then Fin 4321
              else if t = ''Week'' then Fin 1009 else if t = ''Day'' then Fin 145
              else array_length s)"
    using assms by simp
  have u: "updateGraph env t s =
     (None, s\<lparr>array_length := array_length s,
           parsedResponse := Some (window arr (array_length s)),
           graph := Some g,
           temperatureValue := Some (property (last arr) ''temperature''),
           humidityValue := Some (property (last arr) ''humidity''),
           pressureValue := Some (property (last arr) ''pressure''),
           luminosityValue := Some (property (last arr) ''lux''),
           trace := trace s @ [Cleared, Rendered g]\<rparr>)"
  proof -
    from h have a: "temp_parsedResponse s = Some arr" and b: "arr \<noteq> []"
      and c: "g = new_graph (Date_parse env) (window arr (array_length s))"
      and d: "new_Graph env g = None" and e: "new_widgets env g = None"
      and f: "graph_render env g = None"
      by blast+
    show ?thesis
      by (rule updateGraph_loaded [OF a b n c d e f])
  qed
  show "fst (updateGraph env t s) = None"
    by (simp add: u)
  show "graph (snd (updateGraph env t s)) = Some g"
    by (simp add: u)
  show "trace (snd (updateGraph env t s)) = trace s @ [Cleared, Rendered g]"
    by (simp add: u)
  show "graph (snd (updateGraph env t s)) = graph s" if "graph s = Some g"
    using that by (simp add: u)
qed

theorem unknown_preset_keeps_window_witness:
  "''Year'' \<notin> {''QuarterYear'', ''Month'', ''Week'', ''Day''} \<and>
   temp_parsedResponse sample_page = Some sample_store \<and> sample_store \<noteq> [] \<and>
   new_graph sample_clock sample_store =
     new_graph (Date_parse sample_host) (window sample_store (array_length sample_page)) \<and>
   new_Graph sample_host (new_graph sample_clock sample_store) = None \<and>
   new_widgets sample_host (new_graph sample_clock sample_store) = None \<and>
   graph_render sample_host (new_graph sample_clock sample_store) = None \<and>
   graph sample_page = Some (new_graph sample_clock sample_store) \<and>
   fst (updateGraph sample_host ''Year'' sample_page) = None \<and>
   array_length (snd (updateGraph sample_host ''Year'' sample_page)) = Fin 12961 \<and>
   graph (snd (updateGraph sample_host ''Year'' sample_page)) = graph sample_page"
proof -
  have n: "''Year'' \<notin> {''QuarterYear'', ''Month'', ''Week'', ''Day''}"
    by simp
  have st: "temp_parsedResponse sample_page = Some sample_store"
    by (simp add: sample_page_eq)
  have al: "array_length sample_page = Fin 12961"
    by (simp add: sample_page_eq)
  have gr: "graph sample_page = Some (new_graph sample_clock sample_store)"
    by (simp add: sample_page_eq)
  have g: "new_graph sample_clock sample_store =
     new_graph (Date_parse sample_host) (window sample_store (array_length sample_page))"
    by (simp add: al window_sample_all sample_host_simps)
  have w: "new_widgets sample_host (new_graph sample_clock sample_store) = None"
    by (simp add: sample_host_simps sample_widgets_nonempty [OF sample_store_nonempty])
  show ?thesis
    using unknown_preset_keeps_window [OF n, of sample_host sample_page sample_store
        "new_graph sample_clock sample_store"]
      n st sample_store_nonempty g w gr al
    by (simp add: sample_host_simps)
qed

text \<open>
  C7, as stated, fails. The claim: after the initial load the sample count is the 12961
  of \<^verbatim>\<open>QuarterYear\<close>. With \<^verbatim>\<open>options.timeframe\<close> set to \<^verbatim>\<open>Week\<close> it is 1009.
\<close>

theorem initial_window_week:
  "array_length (loadData sample_host sample_store (init ''Week'')) = Fin 1009 \<and>
   array_length (loadData sample_host sample_store (init ''Week'')) \<noteq> Fin 12961"
  by (simp add: loadData_array_length init_def)

text \<open>
  C7, amended. After the initial load, and before any window change, the sample count is
  the 12961 of \<^verbatim>\<open>QuarterYear\<close> unless \<^verbatim>\<open>options.timeframe\<close> is \<^verbatim>\<open>Week\<close>, which
  gives 1009, or \<^verbatim>\<open>Month\<close>, which gives 4321.
\<close>

theorem initial_window:
  "array_length (loadData dp response (init timeframe)) =
     (if timeframe = ''Week'' then Fin 1009
      else if timeframe = ''Month'' then Fin 4321
      else Fin 12961)"
  by (simp add: loadData_array_length init_def)

theorem initial_window_witness:
  "array_length (loadData sample_host sample_store (init ''QuarterYear'')) = Fin 12961 \<and>
   array_length (loadData sample_host sample_store (init ''Month'')) = Fin 4321 \<and>
   array_length (loadData sample_host sample_store (init ''Day'')) = Fin 12961"
  using initial_window [of sample_host sample_store "''QuarterYear''"]
    initial_window [of sample_host sample_store "''Month''"]
    initial_window [of sample_host sample_store "''Day''"]
  by simp

text \<open>
  C8. The latest value of a metric on an empty sequence of records fails, and the
  failure is the TypeError thrown by reading \<^verbatim>\<open>.y\<close> of an undefined element (the
  \<^verbatim>\<open>EmptySliceError\<close> of the specification), nothing else; on every non-empty sequence
  it is the value the last record has for that metric.
\<close>

theorem latest_value:
  "latest dp [] key = Inl TypeError \<and>
   (arr \<noteq> [] \<longrightarrow> latest dp arr key = Inr (property (last arr) key))"
  by (simp add: latest_empty latest_nonempty)

theorem latest_value_witness:
  "sample_store \<noteq> [] \<and>
   latest sample_clock sample_store ''temperature'' = Inr (Num (Fin 23)) \<and>
   latest sample_clock [] ''temperature'' = Inl TypeError"
  using latest_value [of sample_clock "''temperature''" sample_store] sample_store_nonempty
  by (simp add: last_sample_store property_def)

text \<open>
  C9. \<^verbatim>\<open>unpackData\<close> is a function of its arguments, so the same records give the same
  points; it gives one point for each record, in the order of the records: the output has
  the length of the input, and its \<open>i\<close>-th point has the parsed time of the \<open>i\<close>-th
  record as \<open>x\<close> and its value for the metric as \<open>y\<close>.
\<close>

theorem unpackData_points:
  "length (unpackData dp arr key) = length arr \<and>
   (\<forall>i < length arr.
      unpackData dp arr key ! i = Point (dp (time (arr ! i))) (property (arr ! i) key))"
  by (simp add: unpackData_def)

theorem unpackData_points_witness:
  "length (unpackData sample_clock sample_store ''humidity'') = 4 \<and>
   (1::nat) < length sample_store \<and>
   unpackData sample_clock sample_store ''humidity'' ! 1 = Point (Fin 1578564600000) (Num (Fin 42))"
proof -
  have l: "length sample_store = 4"
    by (simp add: sample_store_def)
  have e: "sample_store ! 1 = \<lparr>time = ''2020-01-09T10:10:00Z'', humidity = Fin 42, lux = Fin 13,
       temperature = Fin 21, pressure = Fin 1\<rparr>"
    by (simp add: sample_store_def)
  have "(1::nat) < length sample_store"
    using l by simp
  with unpackData_points [of sample_clock sample_store "''humidity''"] l e show ?thesis
    by (simp add: property_def sample_clock_def)
qed

text \<open>
  C10. When a text parses as a number \<open>h\<close> with \<open>0 < h < 2160\<close>, the same text
  followed by anything that starts with a character no numeric literal is written with
  (as in \<^verbatim>\<open>12abc\<close>) parses as \<open>h\<close> too, and \<^verbatim>\<open>customTimestamp\<close> does with it exactly what
  it does with the text alone: no alert is added, and the sample count becomes \<open>h * 6\<close>.
\<close>

theorem trailing_text_accepted:
  assumes "parseFloat number_text = Fin h" and "0 < h" and "h < 2160"
    and "\<not> numeric_char c"
  shows "parseFloat (number_text @ c # rest) = Fin h \<and>
         customTimestamp dp (Some (number_text @ c # rest)) s =
           customTimestamp dp (Some number_text) s \<and>
         array_length (snd (customTimestamp dp (Some (number_text @ c # rest)) s))
           = js_mul (Fin h) (Fin 6) \<and>
         (\<forall>msg. Alerted msg \<in> set (trace (snd (customTimestamp dp (Some (number_text @ c # rest)) s)))
            \<longrightarrow> Alerted msg \<in> set (trace s))"
proof -
  have p: "parseFloat (number_text @ c # rest) = Fin h"
    using parseFloat_append [OF assms(4), of number_text rest] assms(1) by simp
  have ne: "number_text \<noteq> []"
    using assms(1) by (auto simp: parseFloat_empty)
  have same: "customTimestamp dp (Some (number_text @ c # rest)) s =
           customTimestamp dp (Some number_text) s"
    using p assms(1) ne by (simp add: customTimestamp_def to_string_def)
  have acc: "customTimestamp dp (Some (number_text @ c # rest)) s =
      updateGraph dp ''last'' (s\<lparr>hours := Some (Fin h), array_length := round64 (h * 6)\<rparr>)"
    using customTimestamp_accept [of "Some (number_text @ c # rest)" h dp s] p assms(2,3)
    by (simp add: to_string_def)
  have al: "array_length (snd (customTimestamp dp (Some (number_text @ c # rest)) s))
           = js_mul (Fin h) (Fin 6)"
    by (simp add: acc updateGraph_array_length)
  have tr: "Alerted msg \<in> set (trace (snd (customTimestamp dp (Some (number_text @ c # rest)) s)))
      \<Longrightarrow> Alerted msg \<in> set (trace s)" for msg
    unfolding acc by (drule updateGraph_alerts) simp
  show ?thesis
    using p same al tr by blast
qed

theorem trailing_text_accepted_witness:
  "parseFloat ''12'' = Fin 12 \<and> (0::real) < 12 \<and> (12::real) < 2160 \<and> \<not> numeric_char CHR ''a'' \<and>
   parseFloat ''12abc'' = Fin 12 \<and>
   array_length (snd (customTimestamp sample_host (Some ''12abc'') sample_page)) = Fin 72 \<and>
   (\<forall>msg. Alerted msg \<notin> set (trace (snd (customTimestamp sample_host (Some ''12abc'') sample_page))))"
proof -
  have p: "parseFloat ''12'' = Fin 12"
    by (simp add: parse_ev num_ev)
  have r: "round64 72 = Fin 72"
    by (simp add: num_ev)
  have n: "\<not> numeric_char CHR ''a''"
    by (simp add: numeric_char_def)
  have t: "trace sample_page = [Rendered (new_graph sample_clock sample_store)]"
    by (simp add: sample_page_eq)
  show ?thesis
    using trailing_text_accepted [OF p _ _ n, where rest = "''bc''" and dp = sample_host
        and s = sample_page] p r n t
    by auto
qed

end

